theory Spec2Isabelle
  imports Main "HOL-Library.Sublist" "HOL-Library.Multiset"
begin

section \<open>The portfolio gallery: data\<close>

text \<open>
  The component \<^verbatim>\<open>Portfolio\<close> of \<^verbatim>\<open>src/components/Portfolio.tsx\<close> holds a literal
  array of project objects, a literal array of category buttons and one state variable.
  A project object becomes a record with the fields of the literal. The field \<^verbatim>\<open>id\<close>
  is written \<open>id_project\<close> (\<open>id\<close> is the identity function of HOL); the ids of the
  source are the integers 1 to 6. A JavaScript string is a \<open>string\<close>, and \<^verbatim>\<open>===\<close> on
  two strings is equality of the character sequences. The Chinese text of the
  display-only fields is written as its UTF-8 byte sequence, one \<open>char\<close> per byte.
\<close>

record project =
  id_project :: int
  title :: string
  category :: string
  description :: string
  image :: string
  tags :: "string list"
  color :: string

text \<open>An entry of the array \<^verbatim>\<open>categories\<close>: the \<^verbatim>\<open>id\<close> a button sets and its label.\<close>

record category_button =
  id_category :: string
  name :: string

section \<open>Array.prototype.filter\<close>

text \<open>
  The built-in \<^verbatim>\<open>filter\<close> of a JavaScript array visits the indices in ascending order,
  calls the callback on each element and appends the element to a new array \<open>A\<close> when the
  callback answers true. \<open>filter_loop\<close> is that loop, with the elements still to visit
  and the array built so far; \<open>filter_array\<close> starts it on the empty array.
\<close>

fun filter_loop :: "('a \<Rightarrow> bool) \<Rightarrow> 'a list \<Rightarrow> 'a list \<Rightarrow> 'a list" where
  "filter_loop callback [] A = A"
| "filter_loop callback (kValue # rest) A =
     filter_loop callback rest (if callback kValue then A @ [kValue] else A)"

definition filter_array :: "('a \<Rightarrow> bool) \<Rightarrow> 'a list \<Rightarrow> 'a list" where
  "filter_array callback arr = filter_loop callback arr []"

section \<open>The category filter\<close>

text \<open>
  Line 76 of the source:
  \<^verbatim>\<open>const filteredProjects = filter === 'all' ? projects
       : projects.filter(project => project.category === filter)\<close>
  as a function of its two free variables: the array \<^verbatim>\<open>projects\<close> (here \<open>items\<close>) and
  the state variable \<^verbatim>\<open>filter\<close> (here \<open>selectedCategory\<close>, since \<open>filter\<close> is a
  function of HOL).
\<close>

definition filteredProjects :: "project list \<Rightarrow> string \<Rightarrow> project list" where
  "filteredProjects items selectedCategory =
     (if selectedCategory = ''all'' then items
      else filter_array (\<lambda>project. category project = selectedCategory) items)"

section \<open>The literals of the component\<close>

definition projects :: "project list" where
  "projects = [
   \<lparr>id_project = 1,
     title =
       [CHR 0xE7, CHR 0x94, CHR 0xB5, CHR 0xE5, CHR 0x95, CHR 0x86, CHR 0xE5, CHR 0xBA,
        CHR 0x94, CHR 0xE7, CHR 0x94, CHR 0xA8, CHR 0xE9, CHR 0x87, CHR 0x8D, CHR 0xE8,
        CHR 0xAE, CHR 0xBE, CHR 0xE8, CHR 0xAE, CHR 0xA1],
     category = ''mobile'',
     description =
       [CHR 0xE4, CHR 0xB8, CHR 0xBA, CHR 0xE6, CHR 0x9F, CHR 0x90, CHR 0xE7, CHR 0x9F,
        CHR 0xA5, CHR 0xE5, CHR 0x90, CHR 0x8D, CHR 0xE7, CHR 0x94, CHR 0xB5, CHR 0xE5,
        CHR 0x95, CHR 0x86, CHR 0xE5, CHR 0xB9, CHR 0xB3, CHR 0xE5, CHR 0x8F, CHR 0xB0,
        CHR 0xE8, CHR 0xAE, CHR 0xBE, CHR 0xE8, CHR 0xAE, CHR 0xA1, CHR 0xE7, CHR 0x9A,
        CHR 0x84, CHR 0xE7, CHR 0xA7, CHR 0xBB, CHR 0xE5, CHR 0x8A, CHR 0xA8, CHR 0xE7,
        CHR 0xAB, CHR 0xAF, CHR 0xE5, CHR 0xBA, CHR 0x94, CHR 0xE7, CHR 0x94, CHR 0xA8,
        CHR 0xE7, CHR 0x95, CHR 0x8C, CHR 0xE9, CHR 0x9D, CHR 0xA2, CHR 0xEF, CHR 0xBC,
        CHR 0x8C, CHR 0xE6, CHR 0x8F, CHR 0x90, CHR 0xE5, CHR 0x8D, CHR 0x87, CHR 0xE4,
        CHR 0xBA, CHR 0x86, CHR 0xE7, CHR 0x94, CHR 0xA8, CHR 0xE6, CHR 0x88, CHR 0xB7,
        CHR 0xE8, CHR 0xB4, CHR 0xAD, CHR 0xE7, CHR 0x89, CHR 0xA9, CHR 0xE4, CHR 0xBD,
        CHR 0x93, CHR 0xE9, CHR 0xAA, CHR 0x8C, CHR 0xE5, CHR 0x92, CHR 0x8C, CHR 0xE8,
        CHR 0xBD, CHR 0xAC, CHR 0xE5, CHR 0x8C, CHR 0x96, CHR 0xE7, CHR 0x8E, CHR 0x87,
        CHR 0xE3, CHR 0x80, CHR 0x82],
     image = ''/api/placeholder/400/300'',
     tags = [''UI/UX'', ''Mobile'', ''E-commerce''],
     color = ''from-blue-500 to-purple-600''\<rparr>,
   \<lparr>id_project = 2,
     title =
       [CHR 0xE9, CHR 0x87, CHR 0x91, CHR 0xE8, CHR 0x9E, CHR 0x8D, CHR 0xE7, CHR 0xA7,
        CHR 0x91, CHR 0xE6, CHR 0x8A, CHR 0x80, CHR 0xE4, CHR 0xBB, CHR 0xAA, CHR 0xE8,
        CHR 0xA1, CHR 0xA8, CHR 0xE6, CHR 0x9D, CHR 0xBF],
     category = ''web'',
     description =
       [CHR 0xE4, CHR 0xB8, CHR 0xBA, CHR 0xE9, CHR 0x87, CHR 0x91, CHR 0xE8, CHR 0x9E,
        CHR 0x8D, CHR 0xE7, CHR 0xA7, CHR 0x91, CHR 0xE6, CHR 0x8A, CHR 0x80, CHR 0xE5,
        CHR 0x85, CHR 0xAC, CHR 0xE5, CHR 0x8F, CHR 0xB8, CHR 0xE8, CHR 0xAE, CHR 0xBE,
        CHR 0xE8, CHR 0xAE, CHR 0xA1, CHR 0xE7, CHR 0x9A, CHR 0x84, CHR 0xE6, CHR 0x95,
        CHR 0xB0, CHR 0xE6, CHR 0x8D, CHR 0xAE, CHR 0xE5, CHR 0x8F, CHR 0xAF, CHR 0xE8,
        CHR 0xA7, CHR 0x86, CHR 0xE5, CHR 0x8C, CHR 0x96, CHR 0xE4, CHR 0xBB, CHR 0xAA,
        CHR 0xE8, CHR 0xA1, CHR 0xA8, CHR 0xE6, CHR 0x9D, CHR 0xBF, CHR 0xEF, CHR 0xBC,
        CHR 0x8C, CHR 0xE8, CHR 0xAE, CHR 0xA9, CHR 0xE5, CHR 0xA4, CHR 0x8D, CHR 0xE6,
        CHR 0x9D, CHR 0x82, CHR 0xE6, CHR 0x95, CHR 0xB0, CHR 0xE6, CHR 0x8D, CHR 0xAE,
        CHR 0xE4, CHR 0xB8, CHR 0x80, CHR 0xE7, CHR 0x9B, CHR 0xAE, CHR 0xE4, CHR 0xBA,
        CHR 0x86, CHR 0xE7, CHR 0x84, CHR 0xB6, CHR 0xE3, CHR 0x80, CHR 0x82],
     image = ''/api/placeholder/400/300'',
     tags = [''Dashboard'', ''Fintech'', ''Data Viz''],
     color = ''from-green-500 to-blue-600''\<rparr>,
   \<lparr>id_project = 3,
     title =
       [CHR 0xE5, CHR 0x81, CHR 0xA5, CHR 0xE5, CHR 0xBA, CHR 0xB7, CHR 0xE7, CHR 0xAE,
        CHR 0xA1, CHR 0xE7, CHR 0x90, CHR 0x86, CHR 0xE5, CHR 0xBA, CHR 0x94, CHR 0xE7,
        CHR 0x94, CHR 0xA8],
     category = ''mobile'',
     description =
       [CHR 0xE4, CHR 0xB8, CHR 0x93, CHR 0xE6, CHR 0xB3, CHR 0xA8, CHR 0xE4, CHR 0xBA,
        CHR 0x8E, CHR 0xE7, CHR 0x94, CHR 0xA8, CHR 0xE6, CHR 0x88, CHR 0xB7, CHR 0xE5,
        CHR 0x81, CHR 0xA5, CHR 0xE5, CHR 0xBA, CHR 0xB7, CHR 0xE7, CHR 0xAE, CHR 0xA1,
        CHR 0xE7, CHR 0x90, CHR 0x86, CHR 0xE7, CHR 0x9A, CHR 0x84, CHR 0xE7, CHR 0xA7,
        CHR 0xBB, CHR 0xE5, CHR 0x8A, CHR 0xA8, CHR 0xE5, CHR 0xBA, CHR 0x94, CHR 0xE7,
        CHR 0x94, CHR 0xA8, CHR 0xEF, CHR 0xBC, CHR 0x8C, CHR 0xE7, CHR 0xAE, CHR 0x80,
        CHR 0xE6, CHR 0xB4, CHR 0x81, CHR 0xE7, CHR 0x9A, CHR 0x84, CHR 0xE7, CHR 0x95,
        CHR 0x8C, CHR 0xE9, CHR 0x9D, CHR 0xA2, CHR 0xE8, CHR 0xAE, CHR 0xBE, CHR 0xE8,
        CHR 0xAE, CHR 0xA1, CHR 0xE6, CHR 0x8F, CHR 0x90, CHR 0xE5, CHR 0x8D, CHR 0x87,
        CHR 0xE4, CHR 0xBA, CHR 0x86, CHR 0xE7, CHR 0x94, CHR 0xA8, CHR 0xE6, CHR 0x88,
        CHR 0xB7, CHR 0xE7, CHR 0xB2, CHR 0x98, CHR 0xE6, CHR 0x80, CHR 0xA7, CHR 0xE3,
        CHR 0x80, CHR 0x82],
     image = ''/api/placeholder/400/300'',
     tags = [''Healthcare'', ''Mobile'', ''Wellness''],
     color = ''from-pink-500 to-red-600''\<rparr>,
   \<lparr>id_project = 4,
     title =
       [CHR 0xE4, CHR 0xBC, CHR 0x81, CHR 0xE4, CHR 0xB8, CHR 0x9A, CHR 0xE5, CHR 0xAE,
        CHR 0x98, CHR 0xE7, CHR 0xBD, CHR 0x91, CHR 0xE9, CHR 0x87, CHR 0x8D, CHR 0xE6,
        CHR 0x9E, CHR 0x84],
     category = ''web'',
     description =
       [CHR 0xE4, CHR 0xB8, CHR 0xBA, CHR 0xE7, CHR 0xA7, CHR 0x91, CHR 0xE6, CHR 0x8A,
        CHR 0x80, CHR 0xE4, CHR 0xBC, CHR 0x81, CHR 0xE4, CHR 0xB8, CHR 0x9A, CHR 0xE8,
        CHR 0xAE, CHR 0xBE, CHR 0xE8, CHR 0xAE, CHR 0xA1, CHR 0xE7, CHR 0x9A, CHR 0x84,
        CHR 0xE5, CHR 0x93, CHR 0x8D, CHR 0xE5, CHR 0xBA, CHR 0x94, CHR 0xE5, CHR 0xBC,
        CHR 0x8F, CHR 0xE5, CHR 0xAE, CHR 0x98, CHR 0xE7, CHR 0xBD, CHR 0x91, CHR 0xEF,
        CHR 0xBC, CHR 0x8C, CHR 0xE7, CHR 0x8E, CHR 0xB0, CHR 0xE4, CHR 0xBB, CHR 0xA3,
        CHR 0xE5, CHR 0x8C, CHR 0x96, CHR 0xE7, CHR 0x9A, CHR 0x84, CHR 0xE8, CHR 0xAE,
        CHR 0xBE, CHR 0xE8, CHR 0xAE, CHR 0xA1, CHR 0xE8, CHR 0xAF, CHR 0xAD, CHR 0xE8,
        CHR 0xA8, CHR 0x80, CHR 0xE6, CHR 0x8F, CHR 0x90, CHR 0xE5, CHR 0x8D, CHR 0x87,
        CHR 0xE4, CHR 0xBA, CHR 0x86, CHR 0xE5, CHR 0x93, CHR 0x81, CHR 0xE7, CHR 0x89,
        CHR 0x8C, CHR 0xE5, CHR 0xBD, CHR 0xA2, CHR 0xE8, CHR 0xB1, CHR 0xA1, CHR 0xE3,
        CHR 0x80, CHR 0x82],
     image = ''/api/placeholder/400/300'',
     tags = [''Website'', ''Corporate'', ''Responsive''],
     color = ''from-purple-500 to-indigo-600''\<rparr>,
   \<lparr>id_project = 5,
     title =
       [CHR 0xE7, CHR 0xA4, CHR 0xBE, CHR 0xE4, CHR 0xBA, CHR 0xA4, CHR 0xE5, CHR 0xAA,
        CHR 0x92, CHR 0xE4, CHR 0xBD, CHR 0x93, CHR 0xE5, CHR 0xB7, CHR 0xA5, CHR 0xE5,
        CHR 0x85, CHR 0xB7],
     category = ''web'',
     description =
       [CHR 0xE4, CHR 0xB8, CHR 0xBA, CHR 0xE5, CHR 0x86, CHR 0x85, CHR 0xE5, CHR 0xAE,
        CHR 0xB9, CHR 0xE5, CHR 0x88, CHR 0x9B, CHR 0xE4, CHR 0xBD, CHR 0x9C, CHR 0xE8,
        CHR 0x80, CHR 0x85, CHR 0xE8, CHR 0xAE, CHR 0xBE, CHR 0xE8, CHR 0xAE, CHR 0xA1,
        CHR 0xE7, CHR 0x9A, CHR 0x84, CHR 0xE7, CHR 0xA4, CHR 0xBE, CHR 0xE4, CHR 0xBA,
        CHR 0xA4, CHR 0xE5, CHR 0xAA, CHR 0x92, CHR 0xE4, CHR 0xBD, CHR 0x93, CHR 0xE7,
        CHR 0xAE, CHR 0xA1, CHR 0xE7, CHR 0x90, CHR 0x86, CHR 0xE5, CHR 0xB7, CHR 0xA5,
        CHR 0xE5, CHR 0x85, CHR 0xB7, CHR 0xEF, CHR 0xBC, CHR 0x8C, CHR 0xE7, CHR 0x9B,
        CHR 0xB4, CHR 0xE8, CHR 0xA7, CHR 0x82, CHR 0xE7, CHR 0x9A, CHR 0x84, CHR 0xE7,
        CHR 0x95, CHR 0x8C, CHR 0xE9, CHR 0x9D, CHR 0xA2, CHR 0xE6, CHR 0x8F, CHR 0x90,
        CHR 0xE9, CHR 0xAB, CHR 0x98, CHR 0xE4, CHR 0xBA, CHR 0x86, CHR 0xE5, CHR 0xB7,
        CHR 0xA5, CHR 0xE4, CHR 0xBD, CHR 0x9C, CHR 0xE6, CHR 0x95, CHR 0x88, CHR 0xE7,
        CHR 0x8E, CHR 0x87, CHR 0xE3, CHR 0x80, CHR 0x82],
     image = ''/api/placeholder/400/300'',
     tags = [''Social Media'', ''Tools'', ''Productivity''],
     color = ''from-orange-500 to-pink-600''\<rparr>,
   \<lparr>id_project = 6,
     title =
       [CHR 0xE6, CHR 0x95, CHR 0x99, CHR 0xE8, CHR 0x82, CHR 0xB2, CHR 0xE5, CHR 0xB9,
        CHR 0xB3, CHR 0xE5, CHR 0x8F, CHR 0xB0, CHR 0xE7, CHR 0x95, CHR 0x8C, CHR 0xE9,
        CHR 0x9D, CHR 0xA2],
     category = ''mobile'',
     description =
       [CHR 0xE5, CHR 0x9C, CHR 0xA8, CHR 0xE7, CHR 0xBA, CHR 0xBF, CHR 0xE6, CHR 0x95,
        CHR 0x99, CHR 0xE8, CHR 0x82, CHR 0xB2, CHR 0xE5, CHR 0xB9, CHR 0xB3, CHR 0xE5,
        CHR 0x8F, CHR 0xB0, CHR 0xE7, CHR 0x9A, CHR 0x84, CHR 0xE7, CHR 0xA7, CHR 0xBB,
        CHR 0xE5, CHR 0x8A, CHR 0xA8, CHR 0xE7, CHR 0xAB, CHR 0xAF, CHR 0xE8, CHR 0xAE,
        CHR 0xBE, CHR 0xE8, CHR 0xAE, CHR 0xA1, CHR 0xEF, CHR 0xBC, CHR 0x8C, CHR 0xE5,
        CHR 0x8F, CHR 0x8B, CHR 0xE5, CHR 0xA5, CHR 0xBD, CHR 0xE7, CHR 0x9A, CHR 0x84,
        CHR 0xE7, CHR 0x95, CHR 0x8C, CHR 0xE9, CHR 0x9D, CHR 0xA2, CHR 0xE8, CHR 0xAE,
        CHR 0xA9, CHR 0xE5, CHR 0xAD, CHR 0xA6, CHR 0xE4, CHR 0xB9, CHR 0xA0, CHR 0xE5,
        CHR 0x8F, CHR 0x98, CHR 0xE5, CHR 0xBE, CHR 0x97, CHR 0xE6, CHR 0x9B, CHR 0xB4,
        CHR 0xE5, CHR 0x8A, CHR 0xA0, CHR 0xE8, CHR 0xBD, CHR 0xBB, CHR 0xE6, CHR 0x9D,
        CHR 0xBE, CHR 0xE6, CHR 0x84, CHR 0x89, CHR 0xE5, CHR 0xBF, CHR 0xAB, CHR 0xE3,
        CHR 0x80, CHR 0x82],
     image = ''/api/placeholder/400/300'',
     tags = [''Education'', ''Mobile'', ''Learning''],
     color = ''from-teal-500 to-green-600''\<rparr>]"

definition categories :: "category_button list" where
  "categories = [
   \<lparr>id_category = ''all'',
     name =
       [CHR 0xE5, CHR 0x85, CHR 0xA8, CHR 0xE9, CHR 0x83, CHR 0xA8]\<rparr>,
   \<lparr>id_category = ''web'',
     name =
       [CHR 0xE7, CHR 0xBD, CHR 0x91, CHR 0xE9, CHR 0xA1, CHR 0xB5, CHR 0xE8, CHR 0xAE,
        CHR 0xBE, CHR 0xE8, CHR 0xAE, CHR 0xA1]\<rparr>,
   \<lparr>id_category = ''mobile'',
     name =
       [CHR 0xE7, CHR 0xA7, CHR 0xBB, CHR 0xE5, CHR 0x8A, CHR 0xA8, CHR 0xE5, CHR 0xBA,
        CHR 0x94, CHR 0xE7, CHR 0x94, CHR 0xA8]\<rparr>]"

section \<open>The state of the component and its events\<close>

text \<open>
  \<^verbatim>\<open>const [filter, setFilter] = useState('all')\<close> (line 11): the component has one
  state variable, which holds \<^verbatim>\<open>'all'\<close> when the component is mounted. The field is
  written \<open>filter_state\<close>. Each button of line 122 to 136 is drawn from an entry of
  \<^verbatim>\<open>categories\<close> and its handler is \<^verbatim>\<open>() => setFilter(category.id)\<close>; nothing else
  writes the state.
\<close>

record portfolio_state =
  filter_state :: string

definition initial :: portfolio_state where
  "initial = \<lparr>filter_state = ''all''\<rparr>"

definition setFilter :: "string \<Rightarrow> portfolio_state \<Rightarrow> portfolio_state" where
  "setFilter v s = s\<lparr>filter_state := v\<rparr>"

definition onClick :: "category_button \<Rightarrow> portfolio_state \<Rightarrow> portfolio_state" where
  "onClick button s = setFilter (id_category button) s"

text \<open>A finite sequence of clicks, the oldest first, each on the button of an entry.\<close>

fun clicks :: "portfolio_state \<Rightarrow> category_button list \<Rightarrow> portfolio_state" where
  "clicks s [] = s"
| "clicks s (button # rest) = clicks (onClick button s) rest"

text \<open>
  What a rendering of the component shows: one card for each element of
  \<^verbatim>\<open>filteredProjects\<close> (line 146), computed from the hardcoded list and the state.
\<close>

definition Portfolio :: "portfolio_state \<Rightarrow> project list" where
  "Portfolio s = filteredProjects projects (filter_state s)"

section \<open>Line 76 on a store of arrays\<close>

text \<open>
  A JavaScript array is an object behind a reference. The store is the list of the arrays
  allocated so far and a reference is an index into it. The conditional of line 76 hands
  back the reference \<^verbatim>\<open>projects\<close> itself when the state is \<^verbatim>\<open>'all'\<close>; otherwise the
  built-in filter allocates a new array and writes to no other. A reference to no array
  cannot arise in JavaScript; the model answers \<open>None\<close> there. Project objects are never
  written by the component, so an array holds them as values.
\<close>

type_synonym heap = "project list list"

definition lookup :: "heap \<Rightarrow> nat \<Rightarrow> project list option" where
  "lookup h r = (if r < length h then Some (h ! r) else None)"

definition alloc :: "heap \<Rightarrow> project list \<Rightarrow> heap \<times> nat" where
  "alloc h arr = (h @ [arr], length h)"

definition filteredProjects_heap :: "heap \<Rightarrow> nat \<Rightarrow> string \<Rightarrow> (heap \<times> nat) option" where
  "filteredProjects_heap h projects_ref selectedCategory =
     (if selectedCategory = ''all'' then Some (h, projects_ref)
      else case lookup h projects_ref of
             None \<Rightarrow> None
           | Some items \<Rightarrow>
               Some (alloc h
                 (filter_array (\<lambda>project. category project = selectedCategory) items)))"

section \<open>Line 76 with the run-time errors of JavaScript\<close>

text \<open>
  At run time an array element may be any value. Reading the property \<^verbatim>\<open>category\<close> of
  \<^verbatim>\<open>undefined\<close> or \<^verbatim>\<open>null\<close> throws a TypeError, and an exception thrown by the
  callback ends the built-in filter at once. The TypeScript type of \<^verbatim>\<open>projects\<close> admits
  objects only: a well-typed array is \<open>map Object L\<close>.
\<close>

datatype jsval = Undefined | Null | Object project

datatype error = TypeError

fun callback_rt :: "string \<Rightarrow> jsval \<Rightarrow> error + bool" where
  "callback_rt selectedCategory Undefined = Inl TypeError"
| "callback_rt selectedCategory Null = Inl TypeError"
| "callback_rt selectedCategory (Object project) = Inr (category project = selectedCategory)"

fun filter_loop_rt :: "('a \<Rightarrow> error + bool) \<Rightarrow> 'a list \<Rightarrow> 'a list \<Rightarrow> error + 'a list" where
  "filter_loop_rt callback [] A = Inr A"
| "filter_loop_rt callback (kValue # rest) A =
     (case callback kValue of
        Inl e \<Rightarrow> Inl e
      | Inr selected \<Rightarrow> filter_loop_rt callback rest (if selected then A @ [kValue] else A))"

definition filteredProjects_rt :: "jsval list \<Rightarrow> string \<Rightarrow> error + jsval list" where
  "filteredProjects_rt items selectedCategory =
     (if selectedCategory = ''all'' then Inr items
      else filter_loop_rt (callback_rt selectedCategory) items [])"

section \<open>The built-in filter and the filter of HOL\<close>

lemma filter_loop_append: "filter_loop callback xs A = A @ filter callback xs"
  by (induction xs arbitrary: A) simp_all

lemma filter_array_filter: "filter_array callback xs = filter callback xs"
  by (simp add: filter_array_def filter_loop_append)

lemma filteredProjects_all: "filteredProjects L ''all'' = L"
  by (simp add: filteredProjects_def)

lemma filteredProjects_other:
  "c \<noteq> ''all'' \<Longrightarrow> filteredProjects L c = filter (\<lambda>p. category p = c) L"
  by (simp add: filteredProjects_def filter_array_filter)

lemma filteredProjects_subseq: "subseq (filteredProjects L c) L"
  by (simp add: filteredProjects_def filter_array_filter)

lemma filteredProjects_category:
  "c \<noteq> ''all'' \<Longrightarrow> p \<in> set (filteredProjects L c) \<Longrightarrow> category p = c"
  by (simp add: filteredProjects_other)

lemma count_list_filter_true: "P p \<Longrightarrow> count_list (filter P xs) p = count_list xs p"
  by (induction xs) auto

lemma filteredProjects_count:
  "category p = c \<Longrightarrow> count_list (filteredProjects L c) p = count_list L p"
  by (simp add: filteredProjects_def filter_array_filter count_list_filter_true)

lemma filteredProjects_absent:
  "c \<noteq> ''all'' \<Longrightarrow> c \<notin> set (map category L) \<Longrightarrow> filteredProjects L c = []"
  by (induction L) (auto simp: filteredProjects_other)

lemma filter_loop_rt_Object:
  "filter_loop_rt (callback_rt c) (map Object L) A =
     Inr (A @ map Object (filter (\<lambda>p. category p = c) L))"
  by (induction L arbitrary: A) simp_all

lemma filteredProjects_rt_Object:
  "filteredProjects_rt (map Object L) c = Inr (map Object (filteredProjects L c))"
  by (simp add: filteredProjects_rt_def filteredProjects_def filter_array_filter
      filter_loop_rt_Object)

text \<open>The error branch of the run-time model is live: an ill-typed array makes it throw.\<close>

lemma filteredProjects_rt_ill_typed: "filteredProjects_rt [Undefined] ''web'' = Inl TypeError"
  by (simp add: filteredProjects_rt_def)

section \<open>The store and the state\<close>

lemma filteredProjects_heap_run:
  assumes "lookup h r = Some L"
  shows "\<exists>h' r'. filteredProjects_heap h r c = Some (h', r') \<and>
           take (length h) h' = h \<and> lookup h' r' = Some (filteredProjects L c)"
proof (cases "c = ''all''")
  case True
  with assms show ?thesis
    by (simp add: filteredProjects_heap_def filteredProjects_def)
next
  case False
  with assms show ?thesis
    by (simp add: filteredProjects_heap_def filteredProjects_def alloc_def lookup_def)
qed

lemma clicks_filter_state:
  "filter_state (clicks s bs) = (if bs = [] then filter_state s else id_category (last bs))"
  by (induction bs arbitrary: s) (simp_all add: onClick_def setFilter_def)

section \<open>The hardcoded list, evaluated\<close>

lemma projects_ids: "map id_project projects = [1, 2, 3, 4, 5, 6]"
  by (simp add: projects_def)

lemma projects_categories:
  "map category projects = [''mobile'', ''web'', ''mobile'', ''web'', ''web'', ''mobile'']"
  by (simp add: projects_def)

lemma projects_first: "category (projects ! 0) = ''mobile''"
  by (simp add: projects_def)

lemma projects_mobile: "map id_project (filteredProjects projects ''mobile'') = [1, 3, 6]"
  by (simp add: filteredProjects_other projects_def)

lemma projects_web: "map id_project (filteredProjects projects ''web'') = [2, 4, 5]"
  by (simp add: filteredProjects_other projects_def)

lemma projects_unknown:
  "c \<noteq> ''all'' \<Longrightarrow> c \<noteq> ''web'' \<Longrightarrow> c \<noteq> ''mobile'' \<Longrightarrow> filteredProjects projects c = []"
  by (rule filteredProjects_absent) (auto simp: projects_categories)

section \<open>The category filter as a function\<close>

text \<open>
  C1, amended. For every item list \<open>L\<close> and every category string \<open>c\<close>: when \<open>c\<close> is not
  the sentinel \<open>all\<close>, every element of \<open>filteredProjects L c\<close> has category \<open>c\<close>; and for
  every \<open>c\<close> the output is a sub-sequence of \<open>L\<close> (the relative order is kept, nothing is
  duplicated) in which every element of \<open>L\<close> of category \<open>c\<close> occurs as often as in \<open>L\<close>
  (none is omitted).
\<close>

theorem filteredProjects_category_subseq:
  "(c \<noteq> ''all'' \<longrightarrow> (\<forall>p \<in> set (filteredProjects L c). category p = c)) \<and>
   subseq (filteredProjects L c) L \<and>
   (\<forall>p. category p = c \<longrightarrow> count_list (filteredProjects L c) p = count_list L p)"
  using filteredProjects_subseq filteredProjects_count filteredProjects_category by blast

text \<open>The amended C1 at the hardcoded list and the category \<open>mobile\<close>.\<close>

theorem filteredProjects_category_subseq_witness:
  "''mobile'' \<noteq> ''all'' \<and>
   list_all (\<lambda>p. category p = ''mobile'') (filteredProjects projects ''mobile'') \<and>
   subseq (filteredProjects projects ''mobile'') projects \<and>
   category (projects ! 0) = ''mobile'' \<and>
   count_list (filteredProjects projects ''mobile'') (projects ! 0) =
     count_list projects (projects ! 0)"
  using filteredProjects_category_subseq [of "''mobile''" projects] projects_first
  by (simp add: list_all_iff)

text \<open>
  C1 as stated fails at the sentinel: with \<open>all\<close> selected the first project of the
  hardcoded list is in the output, and its category is \<open>mobile\<close>, not \<open>all\<close>.
\<close>

theorem filteredProjects_all_keeps_other_categories:
  "projects ! 0 \<in> set (filteredProjects projects ''all'') \<and>
   category (projects ! 0) \<noteq> ''all''"
  by (simp add: filteredProjects_all projects_def)

text \<open>
  C2. For every item list \<open>L\<close>, filtering with the sentinel \<open>all\<close> returns \<open>L\<close>: the same
  elements in the same order. On the store it is the very array that was passed in, and
  the store is left as it was.
\<close>

theorem filteredProjects_all_identity:
  "filteredProjects L ''all'' = L \<and> filteredProjects_heap h r ''all'' = Some (h, r)"
  by (simp add: filteredProjects_def filteredProjects_heap_def)

text \<open>
  C3, amended. For every item list \<open>L\<close> and every category string \<open>c\<close> other than the
  sentinel \<open>all\<close> that is not the category of any element of \<open>L\<close>, the output is the empty
  sequence; at run time it is an ordinary result (\<open>Inr\<close>), not an error, since \<open>c\<close> is
  never validated.
\<close>

theorem filteredProjects_absent_empty:
  "c \<noteq> ''all'' \<Longrightarrow> c \<notin> set (map category L) \<Longrightarrow>
   filteredProjects L c = [] \<and> filteredProjects_rt (map Object L) c = Inr []"
  by (simp add: filteredProjects_rt_Object filteredProjects_absent del: set_map)

text \<open>The amended C3 at the hardcoded list and the category \<open>desktop\<close>.\<close>

theorem filteredProjects_absent_empty_witness:
  "''desktop'' \<noteq> ''all'' \<and> ''desktop'' \<notin> set (map category projects) \<and>
   filteredProjects projects ''desktop'' = [] \<and>
   filteredProjects_rt (map Object projects) ''desktop'' = Inr []"
  using filteredProjects_absent_empty [of "''desktop''" projects]
  by (simp add: projects_categories del: set_map)

text \<open>
  C3 as stated fails at the sentinel: \<open>all\<close> is not the category of any hardcoded
  project, and filtering the hardcoded list with \<open>all\<close> is not empty.
\<close>

theorem filteredProjects_all_absent_nonempty:
  "''all'' \<notin> set (map category projects) \<and> filteredProjects projects ''all'' \<noteq> []"
  by (simp add: filteredProjects_all projects_def)

text \<open>
  C4. The filter is total: on every well-typed input, a finite array of project objects
  and any string, the run-time model returns a result (\<open>Inr\<close>) and never throws; the
  result is the one the typed function computes. The empty array is such a result.
\<close>

theorem filteredProjects_rt_total:
  "filteredProjects_rt (map Object L) c = Inr (map Object (filteredProjects L c)) \<and>
   filteredProjects_rt [] c = Inr []"
  using filteredProjects_rt_Object [of L c] filteredProjects_rt_Object [of "[]" c]
  by (simp add: filteredProjects_def filter_array_def)

text \<open>
  C5. Filtering is idempotent: filtering the output again with the same category gives
  the output.
\<close>

theorem filteredProjects_idempotent:
  "filteredProjects (filteredProjects L c) c = filteredProjects L c"
  by (simp add: filteredProjects_def filter_array_filter)

section \<open>Purity\<close>

text \<open>
  C6. The filter is a pure function of its two inputs. On the store: an evaluation
  changes no array that existed before it, the input array among them, and two
  evaluations, in any two stores, on arrays of equal contents and on equal categories
  return arrays of equal contents, the output of the function.
\<close>

theorem filteredProjects_heap_pure:
  assumes "lookup h1 r1 = Some L" and "lookup h2 r2 = Some L"
  shows "\<exists>h1' r1' h2' r2'.
           filteredProjects_heap h1 r1 c = Some (h1', r1') \<and>
           filteredProjects_heap h2 r2 c = Some (h2', r2') \<and>
           take (length h1) h1' = h1 \<and> take (length h2) h2' = h2 \<and>
           lookup h1' r1' = lookup h2' r2' \<and>
           lookup h1' r1' = Some (filteredProjects L c)"
proof -
  obtain h1' r1' where 1: "filteredProjects_heap h1 r1 c = Some (h1', r1')"
      "take (length h1) h1' = h1" "lookup h1' r1' = Some (filteredProjects L c)"
    using filteredProjects_heap_run [OF assms(1)] by blast
  obtain h2' r2' where 2: "filteredProjects_heap h2 r2 c = Some (h2', r2')"
      "take (length h2) h2' = h2" "lookup h2' r2' = Some (filteredProjects L c)"
    using filteredProjects_heap_run [OF assms(2)] by blast
  from 1 2 show ?thesis by simp
qed

text \<open>
  C6 at two stores that hold the hardcoded list at different references, with the
  category \<open>web\<close>.
\<close>

theorem filteredProjects_heap_pure_witness:
  "lookup [projects] 0 = Some projects \<and> lookup [[], projects] 1 = Some projects \<and>
   (\<exists>h1' r1' h2' r2'.
      filteredProjects_heap [projects] 0 ''web'' = Some (h1', r1') \<and>
      filteredProjects_heap [[], projects] 1 ''web'' = Some (h2', r2') \<and>
      take (length [projects]) h1' = [projects] \<and>
      take (length [[], projects]) h2' = [[], projects] \<and>
      lookup h1' r1' = lookup h2' r2' \<and>
      lookup h1' r1' = Some (filteredProjects projects ''web''))"
proof -
  have a: "lookup [projects] 0 = Some projects"
    by (simp add: lookup_def)
  have b: "lookup [[], projects] 1 = Some projects"
    by (simp add: lookup_def)
  from filteredProjects_heap_pure [OF a b, of "''web''"] a b show ?thesis
    by blast
qed

section \<open>The component: selections and renderings\<close>

text \<open>
  C7. After any non-empty finite sequence of clicks on category buttons, from any state,
  the rendering shows the hardcoded list filtered by the id of the button clicked last;
  one click alone already replaces the view, whatever was shown before.
\<close>

theorem Portfolio_last_click:
  "bs \<noteq> [] \<Longrightarrow>
   Portfolio (clicks s bs) = filteredProjects projects (id_category (last bs)) \<and>
   Portfolio (onClick b s) = filteredProjects projects (id_category b)"
  by (simp add: Portfolio_def clicks_filter_state onClick_def setFilter_def)

text \<open>
  C7 at the three buttons of the component clicked in their order, after mounting: the
  last one is \<open>mobile\<close>.
\<close>

theorem Portfolio_last_click_witness:
  "categories \<noteq> [] \<and>
   Portfolio (clicks initial categories) = filteredProjects projects ''mobile'' \<and>
   Portfolio (onClick (categories ! 1) initial) = filteredProjects projects ''web''"
  using Portfolio_last_click [of categories initial "categories ! 1"]
  by (simp add: categories_def)

text \<open>
  C8. When the component is mounted, before any click, the state is the sentinel \<open>all\<close>
  and the rendering shows the full hardcoded list.
\<close>

theorem Portfolio_initial:
  "filter_state initial = ''all'' \<and> Portfolio initial = projects \<and>
   Portfolio (clicks initial []) = projects"
  by (simp add: initial_def Portfolio_def filteredProjects_def)

section \<open>The buttons and the hardcoded list\<close>

text \<open>
  C9. The buttons other than \<open>all\<close> are exactly \<open>web\<close> and \<open>mobile\<close>, and each is the
  category of a hardcoded project: \<open>mobile\<close> selects the projects 1, 3, 6 and \<open>web\<close>
  the projects 2, 4, 5, no button gives an empty output, and the two outputs together
  hold each of the six projects exactly once.
\<close>

theorem categories_cover_projects:
  "map id_category (filter (\<lambda>b. id_category b \<noteq> ''all'') categories) = [''web'', ''mobile''] \<and>
   set [''web'', ''mobile''] \<subseteq> set (map category projects) \<and>
   map id_project (filteredProjects projects ''mobile'') = [1, 3, 6] \<and>
   map id_project (filteredProjects projects ''web'') = [2, 4, 5] \<and>
   map (\<lambda>b. filteredProjects projects (id_category b) = []) categories = [False, False, False] \<and>
   length projects = 6 \<and> distinct (map id_project projects) \<and>
   mset (filteredProjects projects ''mobile'' @ filteredProjects projects ''web'') = mset projects"
proof -
  have 1: "map id_category (filter (\<lambda>b. id_category b \<noteq> ''all'') categories) = [''web'', ''mobile'']"
    by (simp add: categories_def)
  have 2: "set [''web'', ''mobile''] \<subseteq> set (map category projects)"
    by (simp add: projects_categories del: set_map)
  have 3: "map (\<lambda>b. filteredProjects projects (id_category b) = []) categories = [False, False, False]"
    by (simp add: categories_def filteredProjects_def filter_array_filter projects_def)
  have 4: "length projects = 6"
    by (simp add: projects_def)
  have 5: "distinct (map id_project projects)"
    by (simp add: projects_ids)
  have 6: "mset (filteredProjects projects ''mobile'' @ filteredProjects projects ''web'') = mset projects"
    by (simp add: filteredProjects_other projects_def)
  from 1 2 3 4 5 6 projects_mobile projects_web show ?thesis
    by blast
qed

text \<open>
  C10. Matching is exact equality of strings. The hardcoded list has a project of
  category \<open>mobile\<close>, and filtering it with a string that differs from \<open>mobile\<close> or
  \<open>web\<close> in case or in surrounding blanks gives the empty sequence, as does every string
  other than \<open>all\<close>, \<open>web\<close> and \<open>mobile\<close>; \<open>mobile\<close> itself does not.
\<close>

theorem filteredProjects_exact_match:
  "category (projects ! 0) = ''mobile'' \<and>
   filteredProjects projects ''mobile'' \<noteq> [] \<and>
   filteredProjects projects ''Mobile'' = [] \<and>
   filteredProjects projects ''MOBILE'' = [] \<and>
   filteredProjects projects '' mobile'' = [] \<and>
   filteredProjects projects ''mobile '' = [] \<and>
   filteredProjects projects ''Web'' = [] \<and>
   (\<forall>c. c \<noteq> ''all'' \<longrightarrow> c \<noteq> ''web'' \<longrightarrow> c \<noteq> ''mobile'' \<longrightarrow> filteredProjects projects c = [])"
proof -
  have "filteredProjects projects ''mobile'' \<noteq> []"
    using projects_mobile by auto
  with projects_first projects_unknown show ?thesis
    by simp
qed

text \<open>C10 at a string with a capital and blanks on both sides.\<close>

theorem filteredProjects_exact_match_witness:
  "'' Mobile '' \<noteq> ''all'' \<and> '' Mobile '' \<noteq> ''web'' \<and> '' Mobile '' \<noteq> ''mobile'' \<and>
   filteredProjects projects '' Mobile '' = []"
  using filteredProjects_exact_match by simp

end
